theory Spec2Isabelle
  imports Main
begin

section \<open>Values exchanged with the version-control library\<close>

text \<open>
  \<^verbatim>\<open>src/git.js\<close> is a thin layer over the NodeGit binding: every function opens the
  repository at a path and calls library methods on it. The values below are the ones
  those methods hand back. A commit is modelled by its content (tree, parents,
  signatures, message); two commits carry the same identifier exactly when they are
  the same value, which is what a collision-free content hash gives.
\<close>

type_synonym repo = string
  \<comment> \<open>the \<^verbatim>\<open>Repo\<close> type of the source: the path of a working copy\<close>

datatype js_error = JsError string
  \<comment> \<open>a rejected promise carries an \<^verbatim>\<open>Error\<close> with a message\<close>

type_synonym tree = "(string \<times> string) list"
  \<comment> \<open>a snapshot of files: path and content\<close>

type_synonym signature = string

datatype commit =
  Commit (tree: tree) (parents: "commit list") (author: signature)
    (committer: signature) (message: string)

datatype oid = CommitOid commit | TreeOid tree

datatype repository = Repository repo
  \<comment> \<open>the handle returned by \<^verbatim>\<open>NodeGit.Repository.open\<close>\<close>

datatype reference = Reference (owner: repository) (shorthand: string)

datatype index = Index repository

datatype merge_preference = PREFERENCE_NONE | NO_FASTFORWARD | FASTFORWARD_ONLY

definition sha :: "commit \<Rightarrow> oid" where
  "sha c = CommitOid c"

text \<open>
  \<^verbatim>\<open>commit.history()\<close> walks the ancestry backwards, starting at the commit itself, and
  hands every commit it visits once to the \<^verbatim>\<open>end\<close> event.
\<close>

fun walk :: "commit \<Rightarrow> commit list" where
  "walk (Commit t ps a c m) = Commit t ps a c m # concat (map walk ps)"

definition history :: "commit \<Rightarrow> commit list" where
  "history c = remdups (walk c)"

section \<open>Promises over the process state\<close>

text \<open>
  The state of a run is the file system the library works on (\<open>world\<close>), the lines
  written to the console, and a ghost list \<open>invoked\<close> of the calls the command handlers
  dispatch; no source function reads the ghost list. An \<^verbatim>\<open>async\<close> function is a
  state transformer that settles with \<open>Inr\<close> (fulfilled) or \<open>Inl\<close> (rejected).
\<close>

record 's process =
  world :: 's
  console :: "string list"
  invoked :: "(string \<times> repo) list"

type_synonym ('s, 'a) promise = "'s process \<Rightarrow> (js_error + 'a) \<times> 's process"

definition resolve :: "'a \<Rightarrow> ('s, 'a) promise" where
  "resolve x s = (Inr x, s)"

definition await :: "('s, 'a) promise \<Rightarrow> ('a \<Rightarrow> ('s, 'b) promise) \<Rightarrow> ('s, 'b) promise" where
  "await m k s = (case m s of (Inl e, s') \<Rightarrow> (Inl e, s') | (Inr x, s') \<Rightarrow> k x s')"

definition try_catch :: "('s, 'a) promise \<Rightarrow> (js_error \<Rightarrow> ('s, 'a) promise) \<Rightarrow> ('s, 'a) promise" where
  "try_catch m h s = (case m s of (Inl e, s') \<Rightarrow> h e s' | (Inr x, s') \<Rightarrow> (Inr x, s'))"

definition observe :: "('s \<Rightarrow> js_error + 'a) \<Rightarrow> ('s, 'a) promise" where
  \<comment> \<open>a library call that only reads the repository\<close>
  "observe f s = (f (world s), s)"

definition effect :: "('s \<Rightarrow> (js_error + 'a) \<times> 's) \<Rightarrow> ('s, 'a) promise" where
  \<comment> \<open>a library call that may change the repository\<close>
  "effect f s = (case f (world s) of (r, w) \<Rightarrow> (r, s\<lparr>world := w\<rparr>))"

section \<open>The library interface used by git.js\<close>

text \<open>
  One field per NodeGit method the source calls, named after the class and the method.
  The transport callbacks passed to \<^verbatim>\<open>fetchAll\<close> (accept every certificate, credentials from
  the SSH agent) belong to the transport and are not part of the state.
\<close>

record 's nodegit =
  Repository_open :: "repo \<Rightarrow> 's \<Rightarrow> js_error + repository"
  Repository_getCurrentBranch :: "repository \<Rightarrow> 's \<Rightarrow> js_error + reference"
  Repository_getStatus :: "repository \<Rightarrow> 's \<Rightarrow> js_error + string list"
  Repository_getBranch :: "repository \<Rightarrow> string \<Rightarrow> 's \<Rightarrow> js_error + reference"
  Branch_delete :: "reference \<Rightarrow> 's \<Rightarrow> (js_error + int) \<times> 's"
  Repository_fetchAll :: "repository \<Rightarrow> 's \<Rightarrow> (js_error + unit) \<times> 's"
  Repository_mergeBranches :: "repository \<Rightarrow> string \<Rightarrow> string \<Rightarrow> signature \<Rightarrow>
      merge_preference \<Rightarrow> 's \<Rightarrow> (js_error + oid) \<times> 's"
  Repository_defaultSignature :: "repository \<Rightarrow> 's \<Rightarrow> signature"
  Repository_refreshIndex :: "repository \<Rightarrow> 's \<Rightarrow> (js_error + index) \<times> 's"
  Index_addAll :: "index \<Rightarrow> 's \<Rightarrow> (js_error + int) \<times> 's"
  Index_write :: "index \<Rightarrow> 's \<Rightarrow> (js_error + int) \<times> 's"
  Index_writeTree :: "index \<Rightarrow> 's \<Rightarrow> (js_error + oid) \<times> 's"
  Reference_nameToId :: "repository \<Rightarrow> string \<Rightarrow> 's \<Rightarrow> js_error + oid"
  Repository_getCommit :: "repository \<Rightarrow> oid \<Rightarrow> 's \<Rightarrow> js_error + commit"
  Repository_createCommit :: "repository \<Rightarrow> string \<Rightarrow> signature \<Rightarrow> signature \<Rightarrow> string \<Rightarrow>
      oid \<Rightarrow> commit list \<Rightarrow> 's \<Rightarrow> (js_error + oid) \<times> 's"
  Repository_getHeadCommit :: "repository \<Rightarrow> 's \<Rightarrow> js_error + commit"
  Repository_getMasterCommit :: "repository \<Rightarrow> 's \<Rightarrow> js_error + commit"

section \<open>src/git.js\<close>

definition getRepo :: "'s nodegit \<Rightarrow> repo \<Rightarrow> ('s, repository) promise" where
  "getRepo G repoPath = observe (Repository_open G repoPath)"

definition getCurrentBranch :: "'s nodegit \<Rightarrow> repo \<Rightarrow> ('s, string) promise" where
  "getCurrentBranch G repoPath =
     await (getRepo G repoPath) (\<lambda>repo.
     await (observe (Repository_getCurrentBranch G repo)) (\<lambda>ref.
     resolve (shorthand ref)))"

definition isStatusClean :: "'s nodegit \<Rightarrow> repo \<Rightarrow> ('s, bool) promise" where
  "isStatusClean G repoPath =
     await (getRepo G repoPath) (\<lambda>repo.
     await (observe (Repository_getStatus G repo)) (\<lambda>statusFiles.
     resolve (length statusFiles = 0)))"

definition hasBranch :: "'s nodegit \<Rightarrow> repo \<Rightarrow> string \<Rightarrow> ('s, bool) promise" where
  "hasBranch G repoPath branchName =
     await (getRepo G repoPath) (\<lambda>repo.
     try_catch
       (await (observe (Repository_getBranch G repo branchName)) (\<lambda>_. resolve True))
       (\<lambda>e. resolve False))"

definition deleteBranch :: "'s nodegit \<Rightarrow> repo \<Rightarrow> string \<Rightarrow> ('s, bool) promise" where
  "deleteBranch G repoPath branch =
     await (getRepo G repoPath) (\<lambda>repo.
     await (observe (Repository_getBranch G repo branch)) (\<lambda>ref.
     await (effect (Branch_delete G ref)) (\<lambda>res.
     resolve (res = 0))))"

definition sync :: "'s nodegit \<Rightarrow> repo \<Rightarrow> ('s, unit) promise" where
  "sync G repoPath =
     await (getCurrentBranch G repoPath) (\<lambda>branch.
     await (getRepo G repoPath) (\<lambda>repo.
     await (effect (Repository_fetchAll G repo)) (\<lambda>_.
     await (\<lambda>s. effect (Repository_mergeBranches G repo branch ''origin/master''
                (Repository_defaultSignature G repo (world s)) FASTFORWARD_ONLY) s) (\<lambda>_.
     resolve ()))))"

text \<open>
  \<^verbatim>\<open>commitAll\<close> is declared \<^verbatim>\<open>Promise<void>\<close> and returns what \<^verbatim>\<open>createCommit\<close> resolves to,
  the new commit's identifier.
\<close>

definition commitAll :: "'s nodegit \<Rightarrow> repo \<Rightarrow> string \<Rightarrow> ('s, oid) promise" where
  "commitAll G repoPath msg =
     await (getRepo G repoPath) (\<lambda>repo s0.
       (let signature = Repository_defaultSignature G repo (world s0) in
        await (effect (Repository_refreshIndex G repo)) (\<lambda>index.
        await (effect (Index_addAll G index)) (\<lambda>_.
        await (effect (Index_write G index)) (\<lambda>_.
        await (effect (Index_writeTree G index)) (\<lambda>oid.
        await (observe (Reference_nameToId G repo ''HEAD'')) (\<lambda>head.
        await (observe (Repository_getCommit G repo head)) (\<lambda>parent.
        effect (Repository_createCommit G repo ''HEAD'' signature signature msg oid
                  [parent]))))))) s0))"

definition isAheadOfMaster :: "'s nodegit \<Rightarrow> repo \<Rightarrow> ('s, bool) promise" where
  "isAheadOfMaster G repoPath =
     await (getRepo G repoPath) (\<lambda>repo.
     await (observe (Repository_getHeadCommit G repo)) (\<lambda>headCommit.
     await (observe (Repository_getMasterCommit G repo)) (\<lambda>masterCommit.
       if sha headCommit = sha masterCommit then resolve False
       else
         await (resolve (map sha (history masterCommit))) (\<lambda>priorShas.
         resolve (sha masterCommit \<in> set priorShas)))))"

section \<open>The command handlers\<close>











section \<open>A reference implementation of the library interface\<close>

text \<open>
  The functions of git.js decide almost nothing by themselves, so statements about what
  happens to a repository need an implementation of the interface. This one keeps, for
  every path, the branch \<^verbatim>\<open>HEAD\<close> points to, the tips of the local and remote-tracking
  branches by short name, the staged tree, the files of the working directory, the
  configured user and what each remote would deliver on a fetch. It follows the documented
  behaviour of the library:
  \<^item> \<^verbatim>\<open>getStatus\<close> lists the paths that differ between the tree of \<^verbatim>\<open>HEAD\<close>, the index and the
    working directory (staged, modified, untracked and deleted files);
  \<^item> \<^verbatim>\<open>Branch.delete\<close> refuses the branch \<^verbatim>\<open>HEAD\<close> points to and returns 0 otherwise;
  \<^item> \<^verbatim>\<open>mergeBranches\<close> looks both branches up and needs a common ancestor; it returns the
    current tip when the other branch is already part of the history, fast-forwards when the
    current tip is an ancestor of the other branch (unless told never to), creates a merge
    commit when that is allowed, and with \<^verbatim>\<open>FASTFORWARD_ONLY\<close> on histories that cannot be
    fast-forwarded returns the current tip and changes nothing;
  \<^item> \<^verbatim>\<open>createCommit\<close> writes the commit it is given and moves the updated reference to it; it
    compares neither the tree with the parent's tree nor anything else with the status.
  Contents of merged files are not modelled: a merge commit takes the incoming side's version
  of every path the incoming side changed.
\<close>

record working_copy =
  head_branch :: string
  branches :: "(string \<times> commit) list"
  index_tree :: tree
  workdir :: tree
  user :: signature
  remotes :: "(string \<times> (js_error + (string \<times> commit) list)) list"

type_synonym filesystem = "(repo \<times> working_copy) list"

fun put :: "'k \<Rightarrow> 'v \<Rightarrow> ('k \<times> 'v) list \<Rightarrow> ('k \<times> 'v) list" where
  "put k v [] = [(k, v)]"
| "put k v ((k', v') # kvs) = (if k = k' then (k, v) # kvs else (k', v') # put k v kvs)"

definition with_repo ::
  "repository \<Rightarrow> filesystem \<Rightarrow> (working_copy \<Rightarrow> js_error + 'a) \<Rightarrow> js_error + 'a" where
  "with_repo r fs f =
     (case r of Repository p \<Rightarrow>
       (case map_of fs p of
          None \<Rightarrow> Inl (JsError ''could not find repository'')
        | Some wc \<Rightarrow> f wc))"

definition update_repo ::
  "repository \<Rightarrow> filesystem \<Rightarrow> (working_copy \<Rightarrow> (js_error + 'a) \<times> working_copy) \<Rightarrow>
     (js_error + 'a) \<times> filesystem" where
  "update_repo r fs f =
     (case r of Repository p \<Rightarrow>
       (case map_of fs p of
          None \<Rightarrow> (Inl (JsError ''could not find repository''), fs)
        | Some wc \<Rightarrow> (case f wc of (res, wc') \<Rightarrow> (res, put p wc' fs))))"

definition head_tree :: "working_copy \<Rightarrow> tree" where
  "head_tree wc = (case map_of (branches wc) (head_branch wc) of None \<Rightarrow> [] | Some c \<Rightarrow> tree c)"

definition diff_paths :: "tree \<Rightarrow> tree \<Rightarrow> string list" where
  "diff_paths a b = [p \<leftarrow> remdups (map fst a @ map fst b). map_of a p \<noteq> map_of b p]"

definition status_files :: "working_copy \<Rightarrow> string list" where
  "status_files wc =
     [p \<leftarrow> remdups (map fst (head_tree wc) @ map fst (index_tree wc) @ map fst (workdir wc)).
        map_of (head_tree wc) p \<noteq> map_of (index_tree wc) p
        \<or> map_of (index_tree wc) p \<noteq> map_of (workdir wc) p]"

definition take_paths :: "string list \<Rightarrow> tree \<Rightarrow> tree \<Rightarrow> tree" where
  \<comment> \<open>\<open>t\<close> with the entries of the paths \<open>ps\<close> replaced by those of \<open>target\<close>\<close>
  "take_paths ps target t = [e \<leftarrow> t. fst e \<notin> set ps] @ [e \<leftarrow> target. fst e \<in> set ps]"

definition ref_key :: "working_copy \<Rightarrow> string \<Rightarrow> string option" where
  \<comment> \<open>the branch a reference name stands for\<close>
  "ref_key wc name =
     (if name = ''HEAD'' then Some (head_branch wc)
      else if take 11 name = ''refs/heads/'' then Some (drop 11 name)
      else None)"

definition ng_open :: "repo \<Rightarrow> filesystem \<Rightarrow> js_error + repository" where
  "ng_open p fs =
     (case map_of fs p of
        None \<Rightarrow> Inl (JsError ''could not find repository'')
      | Some _ \<Rightarrow> Inr (Repository p))"

definition ng_getCurrentBranch :: "repository \<Rightarrow> filesystem \<Rightarrow> js_error + reference" where
  "ng_getCurrentBranch r fs =
     with_repo r fs (\<lambda>wc.
       case map_of (branches wc) (head_branch wc) of
         None \<Rightarrow> Inl (JsError ''reference not found'')
       | Some _ \<Rightarrow> Inr (Reference r (head_branch wc)))"

definition ng_getStatus :: "repository \<Rightarrow> filesystem \<Rightarrow> js_error + string list" where
  "ng_getStatus r fs = with_repo r fs (\<lambda>wc. Inr (status_files wc))"

definition ng_getBranch :: "repository \<Rightarrow> string \<Rightarrow> filesystem \<Rightarrow> js_error + reference" where
  "ng_getBranch r name fs =
     with_repo r fs (\<lambda>wc.
       case map_of (branches wc) name of
         None \<Rightarrow> Inl (JsError ''no reference found for shorthand'')
       | Some _ \<Rightarrow> Inr (Reference r name))"

definition ng_Branch_delete :: "reference \<Rightarrow> filesystem \<Rightarrow> (js_error + int) \<times> filesystem" where
  "ng_Branch_delete ref fs =
     update_repo (owner ref) fs (\<lambda>wc.
       if shorthand ref = head_branch wc
       then (Inl (JsError ''cannot delete the current HEAD branch''), wc)
       else
         (case map_of (branches wc) (shorthand ref) of
            None \<Rightarrow> (Inl (JsError ''reference not found''), wc)
          | Some _ \<Rightarrow>
              (Inr 0, wc\<lparr>branches := [b \<leftarrow> branches wc. fst b \<noteq> shorthand ref]\<rparr>)))"

fun fetch_remotes ::
  "(string \<times> (js_error + (string \<times> commit) list)) list \<Rightarrow> working_copy \<Rightarrow>
     (js_error + unit) \<times> working_copy" where
  "fetch_remotes [] wc = (Inr (), wc)"
| "fetch_remotes ((name, Inl e) # rs) wc = (Inl e, wc)"
| "fetch_remotes ((name, Inr bs) # rs) wc =
     fetch_remotes rs
       (wc\<lparr>branches := foldl (\<lambda>acc b. put (name @ ''/'' @ fst b) (snd b) acc) (branches wc) bs\<rparr>)"

definition ng_fetchAll :: "repository \<Rightarrow> filesystem \<Rightarrow> (js_error + unit) \<times> filesystem" where
  "ng_fetchAll r fs = update_repo r fs (\<lambda>wc. fetch_remotes (remotes wc) wc)"

definition move_branch ::
  "string \<Rightarrow> commit \<Rightarrow> commit \<Rightarrow> working_copy \<Rightarrow> (js_error + oid) \<times> working_copy" where
  \<comment> \<open>point branch \<open>to\<close> (now at \<open>old\<close>) to \<open>new\<close>; a safe checkout of the new tree first when
      the branch is checked out\<close>
  "move_branch to old new wc =
     (if to = head_branch wc then
        (let changed = diff_paths (tree old) (tree new) in
         if [p \<leftarrow> status_files wc. p \<in> set changed] \<noteq> []
         then (Inl (JsError ''conflicts prevent checkout''), wc)
         else (Inr (sha new),
               wc\<lparr>branches := put to new (branches wc),
                  index_tree := take_paths changed (tree new) (index_tree wc),
                  workdir := take_paths changed (tree new) (workdir wc)\<rparr>))
      else (Inr (sha new), wc\<lparr>branches := put to new (branches wc)\<rparr>))"

definition ng_mergeBranches ::
  "repository \<Rightarrow> string \<Rightarrow> string \<Rightarrow> signature \<Rightarrow> merge_preference \<Rightarrow> filesystem \<Rightarrow>
     (js_error + oid) \<times> filesystem" where
  "ng_mergeBranches r to from sig pref fs =
     update_repo r fs (\<lambda>wc.
       case map_of (branches wc) to of
         None \<Rightarrow> (Inl (JsError ''no reference found for shorthand''), wc)
       | Some toCommit \<Rightarrow>
       (case map_of (branches wc) from of
         None \<Rightarrow> (Inl (JsError ''no reference found for shorthand''), wc)
       | Some fromCommit \<Rightarrow>
       (case [c \<leftarrow> history toCommit. c \<in> set (history fromCommit)] of
         [] \<Rightarrow> (Inl (JsError ''no merge base found''), wc)
       | base # _ \<Rightarrow>
           if fromCommit \<in> set (history toCommit) then (Inr (sha toCommit), wc)
           else if toCommit \<in> set (history fromCommit) \<and> pref \<noteq> NO_FASTFORWARD
             then move_branch to toCommit fromCommit wc
           else if pref \<noteq> FASTFORWARD_ONLY
             then move_branch to toCommit
                    (Commit
                       (take_paths (diff_paths (tree base) (tree fromCommit)) (tree fromCommit)
                          (tree toCommit))
                       [toCommit, fromCommit] sig sig
                       (''Merged '' @ from @ '' into '' @ to)) wc
           else (Inr (sha toCommit), wc))))"

definition ng_defaultSignature :: "repository \<Rightarrow> filesystem \<Rightarrow> signature" where
  "ng_defaultSignature r fs =
     (case r of Repository p \<Rightarrow> (case map_of fs p of None \<Rightarrow> [] | Some wc \<Rightarrow> user wc))"

definition ng_refreshIndex :: "repository \<Rightarrow> filesystem \<Rightarrow> (js_error + index) \<times> filesystem" where
  "ng_refreshIndex r fs = update_repo r fs (\<lambda>wc. (Inr (Index r), wc))"

definition ng_addAll :: "index \<Rightarrow> filesystem \<Rightarrow> (js_error + int) \<times> filesystem" where
  "ng_addAll i fs =
     (case i of Index r \<Rightarrow> update_repo r fs (\<lambda>wc. (Inr 0, wc\<lparr>index_tree := workdir wc\<rparr>)))"

definition ng_write :: "index \<Rightarrow> filesystem \<Rightarrow> (js_error + int) \<times> filesystem" where
  "ng_write i fs = (case i of Index r \<Rightarrow> update_repo r fs (\<lambda>wc. (Inr 0, wc)))"

definition ng_writeTree :: "index \<Rightarrow> filesystem \<Rightarrow> (js_error + oid) \<times> filesystem" where
  "ng_writeTree i fs =
     (case i of Index r \<Rightarrow> update_repo r fs (\<lambda>wc. (Inr (TreeOid (index_tree wc)), wc)))"

definition ng_nameToId :: "repository \<Rightarrow> string \<Rightarrow> filesystem \<Rightarrow> js_error + oid" where
  "ng_nameToId r name fs =
     with_repo r fs (\<lambda>wc.
       case ref_key wc name of
         None \<Rightarrow> Inl (JsError ''reference not found'')
       | Some b \<Rightarrow>
           (case map_of (branches wc) b of
              None \<Rightarrow> Inl (JsError ''reference not found'')
            | Some c \<Rightarrow> Inr (sha c)))"

definition ng_getCommit :: "repository \<Rightarrow> oid \<Rightarrow> filesystem \<Rightarrow> js_error + commit" where
  "ng_getCommit r i fs =
     with_repo r fs (\<lambda>wc.
       case i of
         CommitOid c \<Rightarrow> Inr c
       | TreeOid _ \<Rightarrow> Inl (JsError ''the requested type does not match the type in the ODB''))"

definition ng_createCommit ::
  "repository \<Rightarrow> string \<Rightarrow> signature \<Rightarrow> signature \<Rightarrow> string \<Rightarrow> oid \<Rightarrow> commit list \<Rightarrow>
     filesystem \<Rightarrow> (js_error + oid) \<times> filesystem" where
  "ng_createCommit r updateRef auth comm msg treeId ps fs =
     update_repo r fs (\<lambda>wc.
       case treeId of
         CommitOid _ \<Rightarrow> (Inl (JsError ''the requested type does not match the type in the ODB''), wc)
       | TreeOid t \<Rightarrow>
           (case ref_key wc updateRef of
              None \<Rightarrow> (Inl (JsError ''reference not found''), wc)
            | Some b \<Rightarrow>
                if map_of (branches wc) b = (case ps of [] \<Rightarrow> None | p # _ \<Rightarrow> Some p)
                then (Inr (sha (Commit t ps auth comm msg)),
                      wc\<lparr>branches := put b (Commit t ps auth comm msg) (branches wc)\<rparr>)
                else (Inl (JsError ''current tip is not the first parent''), wc)))"

definition ng_getHeadCommit :: "repository \<Rightarrow> filesystem \<Rightarrow> js_error + commit" where
  "ng_getHeadCommit r fs =
     with_repo r fs (\<lambda>wc.
       case map_of (branches wc) (head_branch wc) of
         None \<Rightarrow> Inl (JsError ''reference not found'')
       | Some c \<Rightarrow> Inr c)"

definition ng_getMasterCommit :: "repository \<Rightarrow> filesystem \<Rightarrow> js_error + commit" where
  "ng_getMasterCommit r fs =
     with_repo r fs (\<lambda>wc.
       case map_of (branches wc) ''master'' of
         None \<Rightarrow> Inl (JsError ''no reference found for shorthand'')
       | Some c \<Rightarrow> Inr c)"

definition reference_backend :: "filesystem nodegit" where
  "reference_backend =
     \<lparr> Repository_open = ng_open,
       Repository_getCurrentBranch = ng_getCurrentBranch,
       Repository_getStatus = ng_getStatus,
       Repository_getBranch = ng_getBranch,
       Branch_delete = ng_Branch_delete,
       Repository_fetchAll = ng_fetchAll,
       Repository_mergeBranches = ng_mergeBranches,
       Repository_defaultSignature = ng_defaultSignature,
       Repository_refreshIndex = ng_refreshIndex,
       Index_addAll = ng_addAll,
       Index_write = ng_write,
       Index_writeTree = ng_writeTree,
       Reference_nameToId = ng_nameToId,
       Repository_getCommit = ng_getCommit,
       Repository_createCommit = ng_createCommit,
       Repository_getHeadCommit = ng_getHeadCommit,
       Repository_getMasterCommit = ng_getMasterCommit \<rparr>"

section \<open>What each call of a batch settled with\<close>


section \<open>Example repositories\<close>

definition start :: "'s \<Rightarrow> 's process" where
  \<comment> \<open>a process that has printed nothing and dispatched nothing yet\<close>
  "start w = \<lparr> world = w, console = [], invoked = [] \<rparr>"

definition c_root :: commit where
  "c_root = Commit [(''README'', ''v1'')] [] ''ann'' ''ann'' ''init''"

definition c_upstream :: commit where
  "c_upstream = Commit [(''README'', ''v2'')] [c_root] ''bob'' ''bob'' ''upstream work''"

definition c_local :: commit where
  "c_local =
     Commit [(''README'', ''v1''), (''notes'', ''x'')] [c_root] ''ann'' ''ann'' ''local work''"

definition wc_feature :: working_copy where
  \<comment> \<open>on branch \<^verbatim>\<open>feature\<close>, which has one commit that \<^verbatim>\<open>master\<close> lacks, and \<^verbatim>\<open>master\<close> has one
      that \<^verbatim>\<open>feature\<close> lacks\<close>
  "wc_feature =
     \<lparr> head_branch = ''feature'',
       branches = [(''master'', c_upstream), (''feature'', c_local)],
       index_tree = tree c_local, workdir = tree c_local, user = ''ann'',
       remotes = [(''origin'', Inr [(''master'', c_upstream), (''feature'', c_local)])] \<rparr>"


definition wc_behind :: working_copy where
  \<comment> \<open>clean, one commit behind the remote\<close>
  "wc_behind =
     \<lparr> head_branch = ''master'',
       branches = [(''master'', c_root), (''origin/master'', c_root)],
       index_tree = tree c_root, workdir = tree c_root, user = ''ann'',
       remotes = [(''origin'', Inr [(''master'', c_upstream)])] \<rparr>"


definition wc_dirty :: working_copy where
  \<comment> \<open>one modified file\<close>
  "wc_dirty = wc_behind\<lparr>workdir := [(''README'', ''v1 edited'')]\<rparr>"


definition wc_topic :: working_copy where
  \<comment> \<open>on branch \<^verbatim>\<open>feature\<close>, level with \<^verbatim>\<open>master\<close>; the remote has news on both branches\<close>
  "wc_topic =
     \<lparr> head_branch = ''feature'',
       branches = [(''master'', c_root), (''feature'', c_root)],
       index_tree = tree c_root, workdir = tree c_root, user = ''ann'',
       remotes = [(''origin'', Inr [(''master'', c_upstream), (''feature'', c_local)])] \<rparr>"




section \<open>Auxiliary facts\<close>

lemmas promise_defs = resolve_def await_def try_catch_def observe_def effect_def

lemmas backend_defs = reference_backend_def ng_open_def ng_getCurrentBranch_def ng_getStatus_def
  ng_getBranch_def ng_Branch_delete_def ng_fetchAll_def ng_mergeBranches_def
  ng_defaultSignature_def ng_refreshIndex_def ng_addAll_def ng_write_def ng_writeTree_def
  ng_nameToId_def ng_getCommit_def ng_createCommit_def ng_getHeadCommit_def
  ng_getMasterCommit_def update_repo_def with_repo_def ref_key_def

lemma map_of_put: "map_of (put k v kvs) k' = (if k' = k then Some v else map_of kvs k')"
  by (induction kvs) auto

lemma put_put: "put k v (put k u kvs) = put k v kvs"
  by (induction kvs) auto

lemma filter_nil_all: "filter P xs = [] \<Longrightarrow> x \<in> set xs \<Longrightarrow> \<not> P x"
  by (simp add: filter_empty_conv)

text \<open>With no pending change, the tree of \<^verbatim>\<open>HEAD\<close>, the index and the working directory hold the
  same files.\<close>

lemma status_files_clean:
  assumes "status_files wc = []"
  shows "map_of (head_tree wc) = map_of (index_tree wc)
       \<and> map_of (index_tree wc) = map_of (workdir wc)"
proof -
  let ?ps = "map fst (head_tree wc) @ map fst (index_tree wc) @ map fst (workdir wc)"
  have eq: "map_of (head_tree wc) p = map_of (index_tree wc) p
            \<and> map_of (index_tree wc) p = map_of (workdir wc) p" for p
  proof (cases "p \<in> set ?ps")
    case True
    then have "p \<in> set (remdups ?ps)" by simp
    from filter_nil_all[OF assms[unfolded status_files_def] this] show ?thesis by simp
  next
    case False
    then have "map_of (head_tree wc) p = None" "map_of (index_tree wc) p = None"
      "map_of (workdir wc) p = None"
      by (auto simp: map_of_eq_None_iff)
    then show ?thesis by simp
  qed
  show ?thesis by (auto simp: eq)
qed

lemma status_files_nil_iff:
  "(status_files wc = []) =
     (map_of (head_tree wc) = map_of (index_tree wc)
      \<and> map_of (index_tree wc) = map_of (workdir wc))"
proof
  assume "status_files wc = []"
  then show "map_of (head_tree wc) = map_of (index_tree wc)
      \<and> map_of (index_tree wc) = map_of (workdir wc)"
    by (rule status_files_clean)
next
  assume "map_of (head_tree wc) = map_of (index_tree wc)
      \<and> map_of (index_tree wc) = map_of (workdir wc)"
  then show "status_files wc = []"
    by (simp add: status_files_def)
qed


section \<open>Properties of git.js\<close>

text \<open>
  C7. The status operation classifies a repository as clean exactly when the list of
  pending changes the library reports for it has no entry; a repository with at least
  one entry is classified dirty (the function resolves to false). Asking changes nothing.
  On the reference implementation the list has no entry exactly when nothing is staged (the
  index holds the files of \<^verbatim>\<open>HEAD\<close>) and nothing is modified, untracked or deleted (the
  working directory holds the files of the index).
\<close>

theorem isStatusClean_zero_entries:
  "(fst (isStatusClean G repoPath s) = Inr True) =
     (\<exists>repo. Repository_open G repoPath (world s) = Inr repo
        \<and> Repository_getStatus G repo (world s) = Inr [])
   \<and> (fst (isStatusClean G repoPath s) = Inr False) =
     (\<exists>repo files. Repository_open G repoPath (world s) = Inr repo
        \<and> Repository_getStatus G repo (world s) = Inr files \<and> files \<noteq> [])
   \<and> snd (isStatusClean G repoPath s) = s
   \<and> (\<forall>wc. map_of (world t) repoPath = Some wc \<longrightarrow>
         fst (isStatusClean reference_backend repoPath t)
           = Inr (map_of (head_tree wc) = map_of (index_tree wc)
                  \<and> map_of (index_tree wc) = map_of (workdir wc)))"
proof -
  have "fst (isStatusClean reference_backend repoPath t)
           = Inr (map_of (head_tree wc) = map_of (index_tree wc)
                  \<and> map_of (index_tree wc) = map_of (workdir wc))"
    if "map_of (world t) repoPath = Some wc" for wc
    using that status_files_nil_iff[of wc]
    by (simp add: isStatusClean_def getRepo_def promise_defs backend_defs)
  then show ?thesis
    by (auto simp: isStatusClean_def getRepo_def promise_defs split: sum.splits)
qed

theorem isStatusClean_zero_entries_witness:
  "fst (isStatusClean reference_backend ''/a'' (start [(''/a'', wc_behind)])) = Inr True
   \<and> map_of (index_tree wc_behind) = map_of (workdir wc_behind)
   \<and> fst (isStatusClean reference_backend ''/a'' (start [(''/a'', wc_dirty)])) = Inr False
   \<and> map_of (index_tree wc_dirty) \<noteq> map_of (workdir wc_dirty)"
proof -
  let ?s = "start [(''/a'', wc_behind)]"
  let ?t = "start [(''/a'', wc_dirty)]"
  have 1: "Repository_open reference_backend ''/a'' (world ?s) = Inr (Repository ''/a'')
         \<and> Repository_getStatus reference_backend (Repository ''/a'') (world ?s) = Inr []"
    by code_simp
  have 2: "Repository_open reference_backend ''/a'' (world ?t) = Inr (Repository ''/a'')
         \<and> Repository_getStatus reference_backend (Repository ''/a'') (world ?t)
             = Inr [''README'']"
    by code_simp
  have 3: "map_of (world ?s) ''/a'' = Some wc_behind" "map_of (world ?t) ''/a'' = Some wc_dirty"
    by (simp_all add: start_def)
  note A = isStatusClean_zero_entries[of reference_backend "''/a''" ?s ?s]
  note B = isStatusClean_zero_entries[of reference_backend "''/a''" ?t ?t]
  from A 1 have a: "fst (isStatusClean reference_backend ''/a'' ?s) = Inr True"
    by blast
  from B 2 have b: "fst (isStatusClean reference_backend ''/a'' ?t) = Inr False"
    by blast
  from A 3(1) a have c: "map_of (index_tree wc_behind) = map_of (workdir wc_behind)"
    by simp
  from B 3(2) b have d: "\<not> (map_of (head_tree wc_dirty) = map_of (index_tree wc_dirty)
      \<and> map_of (index_tree wc_dirty) = map_of (workdir wc_dirty))"
    by simp
  have e: "map_of (head_tree wc_dirty) = map_of (index_tree wc_dirty)"
    by (simp add: head_tree_def wc_dirty_def wc_behind_def c_root_def)
  from a b c d e show ?thesis by simp
qed

text \<open>
  C9. Once the repository has been opened, \<^verbatim>\<open>hasBranch\<close> is fulfilled with a boolean whatever
  the branch lookup does: true when the lookup succeeds and false when it fails, for any
  failure. The repository is left as it was.
\<close>

theorem hasBranch_boolean:
  assumes "Repository_open G repoPath (world s) = Inr repo"
  shows "hasBranch G repoPath branchName s =
           (Inr (\<not> isl (Repository_getBranch G repo branchName (world s))), s)"
  using assms
  by (auto simp: hasBranch_def getRepo_def promise_defs split: sum.splits)

theorem hasBranch_boolean_witness:
  "Repository_open reference_backend ''/a'' (world (start [(''/a'', wc_feature)]))
     = Inr (Repository ''/a'')
   \<and> hasBranch reference_backend ''/a'' ''feature'' (start [(''/a'', wc_feature)])
     = (Inr True, start [(''/a'', wc_feature)])
   \<and> hasBranch reference_backend ''/a'' ''release'' (start [(''/a'', wc_feature)])
     = (Inr False, start [(''/a'', wc_feature)])"
proof -
  let ?s = "start [(''/a'', wc_feature)]"
  have 1: "Repository_open reference_backend ''/a'' (world ?s) = Inr (Repository ''/a'')"
    by code_simp
  have 2: "\<not> isl (Repository_getBranch reference_backend (Repository ''/a'') ''feature''
             (world ?s))"
    by code_simp
  have 3: "isl (Repository_getBranch reference_backend (Repository ''/a'') ''release''
             (world ?s))"
    by code_simp
  show ?thesis
    using 1 2 3 hasBranch_boolean[OF 1, of "''feature''"] hasBranch_boolean[OF 1, of "''release''"]
    by simp
qed

text \<open>
  C10. Once the repository has been opened, \<^verbatim>\<open>deleteBranch\<close> is rejected with the error of
  the branch lookup when the lookup fails (it does not resolve to false); when the lookup
  finds the branch and the library's delete returns the code \<open>code\<close>, it resolves to
  \<open>code = 0\<close>.
\<close>

theorem deleteBranch_outcomes:
  assumes "Repository_open G repoPath (world s) = Inr repo"
  shows "(\<forall>e. Repository_getBranch G repo branch (world s) = Inl e \<longrightarrow>
            deleteBranch G repoPath branch s = (Inl e, s))
       \<and> (\<forall>ref code w'. Repository_getBranch G repo branch (world s) = Inr ref \<longrightarrow>
            Branch_delete G ref (world s) = (Inr code, w') \<longrightarrow>
            deleteBranch G repoPath branch s = (Inr (code = 0), s\<lparr>world := w'\<rparr>))"
  using assms
  by (auto simp: deleteBranch_def getRepo_def promise_defs split: sum.splits)

theorem deleteBranch_outcomes_witness:
  "Repository_open reference_backend ''/a'' (world (start [(''/a'', wc_feature)]))
     = Inr (Repository ''/a'')
   \<and> deleteBranch reference_backend ''/a'' ''release'' (start [(''/a'', wc_feature)])
     = (Inl (JsError ''no reference found for shorthand''), start [(''/a'', wc_feature)])
   \<and> deleteBranch reference_backend ''/a'' ''master'' (start [(''/a'', wc_feature)])
     = (Inr True,
        start [(''/a'', wc_feature\<lparr>branches := [(''feature'', c_local)]\<rparr>)])"
proof -
  let ?s = "start [(''/a'', wc_feature)]"
  let ?w' = "[(''/a'', wc_feature\<lparr>branches := [(''feature'', c_local)]\<rparr>)]"
  have 1: "Repository_open reference_backend ''/a'' (world ?s) = Inr (Repository ''/a'')"
    by code_simp
  have 2: "Repository_getBranch reference_backend (Repository ''/a'') ''release'' (world ?s)
             = Inl (JsError ''no reference found for shorthand'')"
    by code_simp
  have 3: "Repository_getBranch reference_backend (Repository ''/a'') ''master'' (world ?s)
             = Inr (Reference (Repository ''/a'') ''master'')"
    by code_simp
  have 4: "Branch_delete reference_backend (Reference (Repository ''/a'') ''master'') (world ?s)
             = (Inr 0, ?w')"
    by code_simp
  have 5: "?s\<lparr>world := ?w'\<rparr> = start ?w'"
    by (simp add: start_def)
  from deleteBranch_outcomes[OF 1, of "''release''"] 2
  have a: "deleteBranch reference_backend ''/a'' ''release'' ?s
             = (Inl (JsError ''no reference found for shorthand''), ?s)"
    by blast
  from deleteBranch_outcomes[OF 1, of "''master''"] 3 4
  have "deleteBranch reference_backend ''/a'' ''master'' ?s = (Inr ((0::int) = 0), ?s\<lparr>world := ?w'\<rparr>)"
    by blast
  with 5 have b: "deleteBranch reference_backend ''/a'' ''master'' ?s = (Inr True, start ?w')"
    by simp
  from 1 a b show ?thesis by simp
qed

text \<open>
  C8. \<^verbatim>\<open>sync\<close> merges into the branch that is checked out, whichever it is, from the branch
  named by the literal \<^verbatim>\<open>origin/master\<close>, with the fast-forward-only preference: once the
  repository is open, its current branch is known and the fetch went through, the outcome of
  \<^verbatim>\<open>sync\<close> is the outcome of that one library call.
\<close>

theorem sync_merges_origin_master:
  assumes "Repository_open G repoPath (world s) = Inr repo"
    and "Repository_getCurrentBranch G repo (world s) = Inr ref"
    and "Repository_fetchAll G repo (world s) = (Inr (), w1)"
    and "Repository_mergeBranches G repo (shorthand ref) ''origin/master''
           (Repository_defaultSignature G repo w1) FASTFORWARD_ONLY w1 = (r, w2)"
  shows "sync G repoPath s = (map_sum id (\<lambda>_. ()) r, s\<lparr>world := w2\<rparr>)"
  using assms
  by (auto simp: sync_def getCurrentBranch_def getRepo_def promise_defs split: sum.splits)

theorem sync_merges_origin_master_witness:
  "Repository_getCurrentBranch reference_backend (Repository ''/a'') [(''/a'', wc_topic)]
     = Inr (Reference (Repository ''/a'') ''feature'')
   \<and> sync reference_backend ''/a'' (start [(''/a'', wc_topic)])
     = (Inr (),
        start [(''/a'',
          wc_topic\<lparr>branches :=
                     [(''master'', c_root), (''feature'', c_upstream),
                      (''origin/master'', c_upstream), (''origin/feature'', c_local)],
                   index_tree := tree c_upstream, workdir := tree c_upstream\<rparr>)])"
proof -
  let ?s = "start [(''/a'', wc_topic)]"
  let ?w1 = "[(''/a'',
          wc_topic\<lparr>branches :=
                     [(''master'', c_root), (''feature'', c_root),
                      (''origin/master'', c_upstream), (''origin/feature'', c_local)]\<rparr>)]"
  let ?w2 = "[(''/a'',
          wc_topic\<lparr>branches :=
                     [(''master'', c_root), (''feature'', c_upstream),
                      (''origin/master'', c_upstream), (''origin/feature'', c_local)],
                   index_tree := tree c_upstream, workdir := tree c_upstream\<rparr>)]"
  have 1: "Repository_open reference_backend ''/a'' (world ?s) = Inr (Repository ''/a'')"
    by code_simp
  have 2: "Repository_getCurrentBranch reference_backend (Repository ''/a'') (world ?s)
             = Inr (Reference (Repository ''/a'') ''feature'')"
    by code_simp
  have 3: "Repository_fetchAll reference_backend (Repository ''/a'') (world ?s) = (Inr (), ?w1)"
    by code_simp
  have 4: "Repository_mergeBranches reference_backend (Repository ''/a'')
             (shorthand (Reference (Repository ''/a'') ''feature'')) ''origin/master''
             (Repository_defaultSignature reference_backend (Repository ''/a'') ?w1)
             FASTFORWARD_ONLY ?w1 = (Inr (sha c_upstream), ?w2)"
    by code_simp
  have 5: "?s\<lparr>world := ?w2\<rparr> = start ?w2"
    by (simp add: start_def)
  from sync_merges_origin_master[OF 1 2 3 4] 5
  have "sync reference_backend ''/a'' ?s = (Inr (), start ?w2)"
    by simp
  moreover from 2 have "Repository_getCurrentBranch reference_backend (Repository ''/a'')
      [(''/a'', wc_topic)] = Inr (Reference (Repository ''/a'') ''feature'')"
    by (simp add: start_def)
  ultimately show ?thesis by simp
qed

subsection \<open>Ahead of master\<close>

lemma walk_self: "c \<in> set (walk c)"
  by (cases c) simp

lemma history_self: "c \<in> set (history c)"
  by (simp add: history_def walk_self)

text \<open>
  The history that \<^verbatim>\<open>isAheadOfMaster\<close> walks is the one of the master commit, and the
  identifier it looks for there is the master commit's own, which every walk meets first.
  So the answer is whether the two identifiers differ; the ancestry of \<^verbatim>\<open>HEAD\<close> is never
  consulted.
\<close>

lemma isAheadOfMaster_ignores_ancestry:
  assumes "Repository_open G repoPath (world s) = Inr repo"
    and "Repository_getHeadCommit G repo (world s) = Inr headCommit"
    and "Repository_getMasterCommit G repo (world s) = Inr masterCommit"
  shows "isAheadOfMaster G repoPath s = (Inr (headCommit \<noteq> masterCommit), s)"
  using assms history_self[of masterCommit]
  by (auto simp: isAheadOfMaster_def getRepo_def promise_defs sha_def split: sum.splits)

theorem isAheadOfMaster_ignores_ancestry_witness:
  "isAheadOfMaster reference_backend ''/a'' (start [(''/a'', wc_feature)])
     = (Inr True, start [(''/a'', wc_feature)])
   \<and> isAheadOfMaster reference_backend ''/a'' (start [(''/a'', wc_behind)])
     = (Inr False, start [(''/a'', wc_behind)])"
proof -
  let ?s = "start [(''/a'', wc_feature)]"
  let ?t = "start [(''/a'', wc_behind)]"
  have 1: "Repository_open reference_backend ''/a'' (world ?s) = Inr (Repository ''/a'')"
    by code_simp
  have 2: "Repository_getHeadCommit reference_backend (Repository ''/a'') (world ?s) = Inr c_local"
    by code_simp
  have 3: "Repository_getMasterCommit reference_backend (Repository ''/a'') (world ?s)
             = Inr c_upstream"
    by code_simp
  have 4: "c_local \<noteq> c_upstream"
    by code_simp
  have 5: "Repository_open reference_backend ''/a'' (world ?t) = Inr (Repository ''/a'')"
    by code_simp
  have 6: "Repository_getHeadCommit reference_backend (Repository ''/a'') (world ?t) = Inr c_root"
    by code_simp
  have 7: "Repository_getMasterCommit reference_backend (Repository ''/a'') (world ?t)
             = Inr c_root"
    by code_simp
  from isAheadOfMaster_ignores_ancestry[OF 1 2 3] isAheadOfMaster_ignores_ancestry[OF 5 6 7] 4
  show ?thesis by simp
qed

text \<open>
  C1. \<^verbatim>\<open>isAheadOfMaster\<close> is to answer true exactly when \<^verbatim>\<open>HEAD\<close> differs from master and
  master's commit is reachable from \<^verbatim>\<open>HEAD\<close>, hence false on diverged histories. In the
  repository below \<^verbatim>\<open>HEAD\<close> (branch \<^verbatim>\<open>feature\<close>) and \<^verbatim>\<open>master\<close> each have a commit the other
  lacks, neither is in the other's history, and the function resolves to true.
\<close>

theorem isAheadOfMaster_diverged:
  "Repository_getHeadCommit reference_backend (Repository ''/a'') [(''/a'', wc_feature)]
     = Inr c_local
   \<and> Repository_getMasterCommit reference_backend (Repository ''/a'') [(''/a'', wc_feature)]
     = Inr c_upstream
   \<and> c_upstream \<notin> set (history c_local) \<and> c_local \<notin> set (history c_upstream)
   \<and> isAheadOfMaster reference_backend ''/a'' (start [(''/a'', wc_feature)])
     = (Inr True, start [(''/a'', wc_feature)])"
  by code_simp

subsection \<open>The reference implementation at work\<close>

text \<open>
  C3, as the code has it. On a repository with a clean working tree and a \<^verbatim>\<open>HEAD\<close> commit,
  \<^verbatim>\<open>commitAll\<close> does not fail: nothing in it looks at the status. It stages the working
  directory, writes the tree and creates a commit with the given message whose only parent
  is the previous \<^verbatim>\<open>HEAD\<close> commit; the current branch moves to it. The new commit holds the
  same files as its parent.
\<close>

theorem commitAll_clean_creates_commit:
  assumes "map_of (world s) repoPath = Some wc"
    and "status_files wc = []"
    and "map_of (branches wc) (head_branch wc) = Some parent"
  shows "commitAll reference_backend repoPath msg s =
           (Inr (sha (Commit (workdir wc) [parent] (user wc) (user wc) msg)),
            s\<lparr>world := put repoPath
               (wc\<lparr>index_tree := workdir wc,
                   branches := put (head_branch wc)
                     (Commit (workdir wc) [parent] (user wc) (user wc) msg) (branches wc)\<rparr>)
               (world s)\<rparr>)
         \<and> map_of (workdir wc) = map_of (tree parent)"
proof -
  from status_files_clean[OF assms(2)] assms(3)
  have "map_of (workdir wc) = map_of (tree parent)"
    by (simp add: head_tree_def)
  moreover have "commitAll reference_backend repoPath msg s =
           (Inr (sha (Commit (workdir wc) [parent] (user wc) (user wc) msg)),
            s\<lparr>world := put repoPath
               (wc\<lparr>index_tree := workdir wc,
                   branches := put (head_branch wc)
                     (Commit (workdir wc) [parent] (user wc) (user wc) msg) (branches wc)\<rparr>)
               (world s)\<rparr>)"
    using assms(1,3)
    by (simp add: commitAll_def getRepo_def promise_defs backend_defs map_of_put put_put
        sha_def Let_def)
  ultimately show ?thesis by simp
qed

theorem commitAll_clean_creates_commit_witness:
  "status_files wc_behind = []
   \<and> commitAll reference_backend ''/a'' ''wip'' (start [(''/a'', wc_behind)])
       = (Inr (CommitOid (Commit (tree c_root) [c_root] ''ann'' ''ann'' ''wip'')),
          start [(''/a'',
            wc_behind\<lparr>branches :=
              [(''master'', Commit (tree c_root) [c_root] ''ann'' ''ann'' ''wip''),
               (''origin/master'', c_root)]\<rparr>)])"
proof -
  let ?s = "start [(''/a'', wc_behind)]"
  have 1: "map_of (world ?s) ''/a'' = Some wc_behind"
    by (simp add: start_def)
  have 2: "status_files wc_behind = []"
    by code_simp
  have 3: "map_of (branches wc_behind) (head_branch wc_behind) = Some c_root"
    by code_simp
  have 4: "?s\<lparr>world := put ''/a''
               (wc_behind\<lparr>index_tree := workdir wc_behind,
                   branches := put (head_branch wc_behind)
                     (Commit (workdir wc_behind) [c_root] (user wc_behind) (user wc_behind) ''wip'')
                     (branches wc_behind)\<rparr>)
               (world ?s)\<rparr>
           = start [(''/a'',
            wc_behind\<lparr>branches :=
              [(''master'', Commit (tree c_root) [c_root] ''ann'' ''ann'' ''wip''),
               (''origin/master'', c_root)]\<rparr>)]"
    by code_simp
  have 5: "sha (Commit (workdir wc_behind) [c_root] (user wc_behind) (user wc_behind) ''wip'')
           = CommitOid (Commit (tree c_root) [c_root] ''ann'' ''ann'' ''wip'')"
    by code_simp
  from commitAll_clean_creates_commit[OF 1 2 3, of "''wip''"] 4 5
  have "commitAll reference_backend ''/a'' ''wip'' ?s
       = (Inr (CommitOid (Commit (tree c_root) [c_root] ''ann'' ''ann'' ''wip'')),
          start [(''/a'',
            wc_behind\<lparr>branches :=
              [(''master'', Commit (tree c_root) [c_root] ''ann'' ''ann'' ''wip''),
               (''origin/master'', c_root)]\<rparr>)])"
    by simp
  with 2 show ?thesis by simp
qed

text \<open>
  C3 as stated fails: the repository below is clean, and \<^verbatim>\<open>commitAll\<close> is fulfilled with the
  identifier of a new commit, which is the \<^verbatim>\<open>HEAD\<close> commit afterwards.
\<close>

theorem commitAll_clean_counterexample:
  "fst (isStatusClean reference_backend ''/a'' (start [(''/a'', wc_behind)])) = Inr True
   \<and> Repository_getHeadCommit reference_backend (Repository ''/a'') [(''/a'', wc_behind)]
       = Inr c_root
   \<and> fst (commitAll reference_backend ''/a'' ''wip'' (start [(''/a'', wc_behind)]))
       = Inr (CommitOid (Commit (tree c_root) [c_root] ''ann'' ''ann'' ''wip''))
   \<and> Repository_getHeadCommit reference_backend (Repository ''/a'')
        (world (snd (commitAll reference_backend ''/a'' ''wip'' (start [(''/a'', wc_behind)]))))
       = Inr (Commit (tree c_root) [c_root] ''ann'' ''ann'' ''wip'')"
  by code_simp




section \<open>Properties of the command handlers\<close>



















end
